theory Spec2Isabelle
  imports Main "HOL-Library.Product_Lexorder"
begin

section \<open>Python values the application computes with\<close>

text \<open>
  The exceptions that the modelled code can raise. \<open>TimetableOverlapError\<close> is the
  application's own exception class (models.py); the two integers are the positional
  arguments it is raised with. The class spells its initialiser \<open>__init\<close>, so Python never
  calls it: the arguments stay in the exception's \<open>args\<close> and the attribute \<open>string\<close> that
  \<open>__str__\<close> reads is never assigned.
\<close>

datatype error = ValueError | TypeError | AttributeError | IndexError | OverflowError
  | TimetableOverlapError int int

text \<open>
  A \<open>datetime.date\<close> is represented by its proleptic Gregorian ordinal
  (\<open>date.toordinal()\<close>, 1 = 0001-01-01), a \<open>datetime.time\<close> by the microseconds since
  midnight, a naive \<open>datetime.datetime\<close> by the pair of both and a \<open>timedelta\<close> by its
  length in microseconds. Python compares dates, times and datetimes field by field,
  which is the order of the ordinal, of the microsecond count, and the lexicographic
  order of the pair.
\<close>

type_synonym date = int
type_synonym time = int
type_synonym datetime = "date \<times> time"
type_synonym timedelta = int

definition us_per_day :: int where
  "us_per_day = 86400000000"

definition valid_time :: "time \<Rightarrow> bool" where
  \<comment> \<open>the times of a day: 00:00:00.000000 to 23:59:59.999999\<close>
  "valid_time t = (0 \<le> t \<and> t < us_per_day)"

definition valid_date :: "date \<Rightarrow> bool" where
  \<comment> \<open>the dates of \<open>datetime\<close>: 0001-01-01 to 9999-12-31\<close>
  "valid_date d = (1 \<le> d \<and> d \<le> 3652059)"

definition td_minutes :: "int \<Rightarrow> timedelta" where
  \<comment> \<open>\<open>dt.timedelta(minutes=n)\<close>\<close>
  "td_minutes n = n * 60000000"

definition td_days :: "int \<Rightarrow> timedelta" where
  \<comment> \<open>\<open>dt.timedelta(n)\<close>: the first positional parameter of \<open>timedelta\<close> is \<open>days\<close>\<close>
  "td_days n = n * us_per_day"

definition hm :: "int \<Rightarrow> int \<Rightarrow> time" where
  \<comment> \<open>\<open>dt.time(h, m)\<close>\<close>
  "hm h m = (h * 60 + m) * 60000000"

definition combine :: "date \<Rightarrow> time \<Rightarrow> datetime" where
  \<comment> \<open>\<open>dt.datetime.combine(date, time)\<close>\<close>
  "combine d t = (d, t)"

definition date_of :: "datetime \<Rightarrow> date" where
  \<comment> \<open>\<open>datetime.date()\<close>\<close>
  "date_of x = fst x"

definition time_of :: "datetime \<Rightarrow> time" where
  \<comment> \<open>\<open>datetime.time()\<close>\<close>
  "time_of x = snd x"

definition weekday :: "date \<Rightarrow> int" where
  \<comment> \<open>\<open>date.weekday()\<close>, Monday = 0; CPython computes \<open>(toordinal() + 6) % 7\<close>\<close>
  "weekday d = (d + 6) mod 7"

definition dt_add :: "datetime \<Rightarrow> timedelta \<Rightarrow> error + datetime" where
  \<comment> \<open>\<open>datetime + timedelta\<close>; a result outside years 1..9999 raises OverflowError\<close>
  "dt_add x delta =
     (let n = snd x + delta; d = fst x + n div us_per_day
      in if valid_date d then Inr (d, n mod us_per_day) else Inl OverflowError)"

definition dt_sub :: "datetime \<Rightarrow> datetime \<Rightarrow> timedelta" where
  \<comment> \<open>\<open>datetime - datetime\<close>\<close>
  "dt_sub x y = (fst x - fst y) * us_per_day + (snd x - snd y)"

section \<open>Configuration (class Cf)\<close>

definition max_late :: int where
  "max_late = 5"

definition max_abs :: int where
  "max_abs = 30"

definition d_str :: string where
  "d_str = ''2022/01/20''"

definition t_str :: string where
  "t_str = ''15:30''"

definition dt_str :: string where
  "dt_str = d_str @ '' '' @ t_str"

section \<open>Calendar arithmetic of the datetime module\<close>

definition is_leap :: "int \<Rightarrow> bool" where
  "is_leap y = (y mod 4 = 0 \<and> (0 < y mod 100 \<or> y mod 400 = 0))"

definition days_in_month_tbl :: "int \<Rightarrow> int" where
  "days_in_month_tbl m = [0, 31, 28, 31, 30, 31, 30, 31, 31, 30, 31, 30, 31] ! nat m"

definition days_before_month_tbl :: "int \<Rightarrow> int" where
  "days_before_month_tbl m = [0, 0, 31, 59, 90, 120, 151, 181, 212, 243, 273, 304, 334] ! nat m"

definition days_in_month :: "int \<Rightarrow> int \<Rightarrow> int" where
  "days_in_month y m = (if m = 2 \<and> is_leap y then 29 else days_in_month_tbl m)"

definition days_before_year :: "int \<Rightarrow> int" where
  "days_before_year y = (y - 1) * 365 + (y - 1) div 4 - (y - 1) div 100 + (y - 1) div 400"

definition days_before_month :: "int \<Rightarrow> int \<Rightarrow> int" where
  "days_before_month y m = days_before_month_tbl m + (if 2 < m \<and> is_leap y then 1 else 0)"

definition ymd2ord :: "int \<Rightarrow> int \<Rightarrow> int \<Rightarrow> date" where
  "ymd2ord y m d = days_before_year y + days_before_month y m + d"

definition date_new :: "int \<Rightarrow> int \<Rightarrow> int \<Rightarrow> error + date" where
  \<comment> \<open>\<open>dt.date(y, m, d)\<close>: ValueError unless the fields name a day of the calendar\<close>
  "date_new y m d =
     (if 1 \<le> y \<and> y \<le> 9999 \<and> 1 \<le> m \<and> m \<le> 12 \<and> 1 \<le> d \<and> d \<le> days_in_month y m
      then Inr (ymd2ord y m d) else Inl ValueError)"

definition ord2ymd :: "date \<Rightarrow> int \<times> int \<times> int" where
  \<comment> \<open>the year, month and day of an ordinal, as \<open>date.fromordinal\<close> computes them\<close>
  "ord2ymd ordinal =
     (let n = ordinal - 1;
          n400 = n div 146097; n = n mod 146097;
          n100 = n div 36524; n = n mod 36524;
          n4 = n div 1461; n = n mod 1461;
          n1 = n div 365; n = n mod 365;
          year = n400 * 400 + 1 + n100 * 100 + n4 * 4 + n1
      in if n1 = 4 \<or> n100 = 4 then (year - 1, 12, 31)
         else
           let leapyear = (n1 = 3 \<and> (if n4 = 24 then n100 = 3 else True));
               month = (n + 50) div 32;
               preceding = days_before_month_tbl month + (if 2 < month \<and> leapyear then 1 else 0)
           in if n < preceding
              then (year, month - 1,
                    n - (preceding - (days_in_month_tbl (month - 1)
                                      + (if month - 1 = 2 \<and> leapyear then 1 else 0))) + 1)
              else (year, month, n - preceding + 1))"

section \<open>Regular expressions and the format codes of strptime and strftime\<close>

text \<open>
  A backtracking matcher for the fragment of \<open>re\<close> that the patterns of the application
  and of \<open>_strptime\<close> use: character classes, concatenation, alternation (left
  alternative first), greedy \<open>?\<close>, numbered groups, and \<open>+\<close> over a class.
  \<open>rx_run r (s, g)\<close> lists, in the order a backtracking engine tries them, the ways \<open>r\<close>
  can match a prefix of \<open>s\<close>: each with the rest of the input and the groups captured.
  Strings are ASCII here; Python's \<open>\d\<close> also accepts the decimal digits of other scripts.
\<close>

datatype rx = Eps | Cls "char list" | Seq rx rx | Alt rx rx | Opt rx | Grp nat rx
  | Many1 "char list"

type_synonym rx_state = "string \<times> (nat \<times> string) list"

fun rx_run :: "rx \<Rightarrow> rx_state \<Rightarrow> rx_state list" where
  "rx_run Eps st = [st]"
| "rx_run (Cls cs) (s, g) =
     (case s of [] \<Rightarrow> [] | c # r \<Rightarrow> if c \<in> set cs then [(r, g)] else [])"
| "rx_run (Seq a b) st = concat (map (rx_run b) (rx_run a st))"
| "rx_run (Alt a b) st = rx_run a st @ rx_run b st"
| "rx_run (Opt a) st = rx_run a st @ [st]"
| "rx_run (Grp i a) (s, g) =
     map (\<lambda>(r, g'). (r, (i, take (length s - length r) s) # g')) (rx_run a (s, g))"
| "rx_run (Many1 cs) (s, g) =
     map (\<lambda>k. (drop k s, g)) (rev [1..<Suc (length (takeWhile (\<lambda>c. c \<in> set cs) s))])"

definition seqs :: "rx list \<Rightarrow> rx" where
  "seqs rs = foldr Seq rs Eps"

definition grp :: "(nat \<times> string) list \<Rightarrow> nat \<Rightarrow> string" where
  \<comment> \<open>\<open>match.group(i)\<close>\<close>
  "grp g i = (case map_of g i of None \<Rightarrow> [] | Some s \<Rightarrow> s)"

definition re_match_anchored :: "rx \<Rightarrow> string \<Rightarrow> (nat \<times> string) list option" where
  \<comment> \<open>\<open>re.match('^...$', s)\<close>: \<open>$\<close> holds at the end and before a final newline\<close>
  "re_match_anchored r s =
     (case filter (\<lambda>(rest, g). rest = [] \<or> rest = [CHR 0x0A]) (rx_run r (s, [])) of
        [] \<Rightarrow> None
      | (rest, g) # _ \<Rightarrow> Some g)"

definition rx_digit :: rx where
  "rx_digit = Cls ''0123456789''"

definition rx_19 :: rx where
  "rx_19 = Cls ''123456789''"

definition d_regex :: rx where
  \<comment> \<open>\<^verbatim>\<open>^(\d{2})[\/-](0?[1-9]|1[0-2])[\/-](0?[1-9]|[1-2][0-9]|3[0-1])$\<close>\<close>
  "d_regex = seqs
     [Grp 1 (Seq rx_digit rx_digit),
      Cls ''/-'',
      Grp 2 (Alt (Seq (Opt (Cls ''0'')) rx_19) (Seq (Cls ''1'') (Cls ''012''))),
      Cls ''/-'',
      Grp 3 (Alt (Seq (Opt (Cls ''0'')) rx_19)
            (Alt (Seq (Cls ''12'') rx_digit) (Seq (Cls ''3'') (Cls ''01''))))]"

definition t_regex :: rx where
  \<comment> \<open>\<^verbatim>\<open>^(0[0-9]|1[0-9]|2[0-3]):?([0-5][0-9])$\<close>\<close>
  "t_regex = seqs
     [Grp 1 (Alt (Seq (Cls ''0'') rx_digit)
            (Alt (Seq (Cls ''1'') rx_digit) (Seq (Cls ''2'') (Cls ''0123'')))),
      Opt (Cls '':''),
      Grp 2 (Seq (Cls ''012345'') rx_digit)]"

text \<open>
  \<open>strptime\<close> turns a format into a pattern, code by code
  (\<open>%Y\<close>: \<^verbatim>\<open>\d\d\d\d\<close>, \<open>%m\<close>: \<^verbatim>\<open>1[0-2]|0[1-9]|[1-9]\<close>,
  \<open>%d\<close>: \<^verbatim>\<open>3[0-1]|[1-2]\d|0[1-9]|[1-9]| [1-9]\<close>, \<open>%H\<close>: \<^verbatim>\<open>2[0-3]|[0-1]\d|\d\<close>,
  \<open>%M\<close>: \<^verbatim>\<open>[0-5]\d|\d\<close>, a blank: \<^verbatim>\<open>\s+\<close>), matches it at the start of the string
  and raises ValueError when it does not match or when input remains after the match.
\<close>

definition rx_Y :: rx where
  "rx_Y = seqs [rx_digit, rx_digit, rx_digit, rx_digit]"

definition rx_m :: rx where
  "rx_m = Alt (Seq (Cls ''1'') (Cls ''012'')) (Alt (Seq (Cls ''0'') rx_19) rx_19)"

definition rx_d :: rx where
  "rx_d = Alt (Seq (Cls ''3'') (Cls ''01''))
         (Alt (Seq (Cls ''12'') rx_digit)
         (Alt (Seq (Cls ''0'') rx_19)
         (Alt rx_19 (Seq (Cls '' '') rx_19))))"

definition rx_H :: rx where
  "rx_H = Alt (Seq (Cls ''2'') (Cls ''0123'')) (Alt (Seq (Cls ''01'') rx_digit) rx_digit)"

definition rx_M :: rx where
  "rx_M = Alt (Seq (Cls ''012345'') rx_digit) rx_digit"

definition whitespace :: "char list" where
  "whitespace = [CHR '' '', CHR 0x09, CHR 0x0A, CHR 0x0B, CHR 0x0C, CHR 0x0D,
                 CHR 0x1C, CHR 0x1D, CHR 0x1E, CHR 0x1F]"

definition d_form :: rx where
  \<comment> \<open>\<open>'%Y/%m/%d'\<close>\<close>
  "d_form = seqs [Grp 1 rx_Y, Cls ''/'', Grp 2 rx_m, Cls ''/'', Grp 3 rx_d]"

definition t_form :: rx where
  \<comment> \<open>\<open>'%H:%M'\<close>\<close>
  "t_form = seqs [Grp 4 rx_H, Cls '':'', Grp 5 rx_M]"

definition dt_form :: rx where
  \<comment> \<open>\<open>d_form + ' ' + t_form\<close>\<close>
  "dt_form = seqs [d_form, Many1 whitespace, t_form]"

definition py_int :: "string \<Rightarrow> int" where
  \<comment> \<open>\<open>int(s)\<close> for a string of digits, after blanks\<close>
  "py_int s = foldl (\<lambda>a c. 10 * a + (int (of_char c) - 48)) 0 (filter (\<lambda>c. c \<in> set ''0123456789'') s)"

definition strptime_match :: "rx \<Rightarrow> string \<Rightarrow> error + (nat \<times> string) list" where
  "strptime_match form s =
     (case rx_run form (s, []) of
        [] \<Rightarrow> Inl ValueError
      | (rest, g) # _ \<Rightarrow> if rest = [] then Inr g else Inl ValueError)"

definition strptime_date :: "string \<Rightarrow> error + date" where
  \<comment> \<open>\<open>dt.datetime.strptime(s, Cf.d_form).date()\<close>\<close>
  "strptime_date s =
     (case strptime_match d_form s of
        Inl e \<Rightarrow> Inl e
      | Inr g \<Rightarrow> date_new (py_int (grp g 1)) (py_int (grp g 2)) (py_int (grp g 3)))"

definition strptime_time :: "string \<Rightarrow> error + time" where
  \<comment> \<open>\<open>dt.datetime.strptime(s, Cf.t_form).time()\<close>\<close>
  "strptime_time s =
     (case strptime_match t_form s of
        Inl e \<Rightarrow> Inl e
      | Inr g \<Rightarrow> Inr (hm (py_int (grp g 4)) (py_int (grp g 5))))"

definition strptime_dt :: "string \<Rightarrow> error + datetime" where
  \<comment> \<open>\<open>dt.datetime.strptime(s, Cf.dt_form)\<close>\<close>
  "strptime_dt s =
     (case strptime_match dt_form s of
        Inl e \<Rightarrow> Inl e
      | Inr g \<Rightarrow>
          (case date_new (py_int (grp g 1)) (py_int (grp g 2)) (py_int (grp g 3)) of
             Inl e \<Rightarrow> Inl e
           | Inr d \<Rightarrow> Inr (combine d (hm (py_int (grp g 4)) (py_int (grp g 5))))))"

definition pad2 :: "int \<Rightarrow> string" where
  "pad2 n = [''0123456789'' ! nat (n div 10 mod 10), ''0123456789'' ! nat (n mod 10)]"

definition year_digits :: "int \<Rightarrow> string" where
  \<comment> \<open>\<open>%Y\<close> as the C library of Linux writes it: the year without leading zeros\<close>
  "year_digits y = dropWhile (\<lambda>c. c = CHR ''0'') (pad2 (y div 100) @ pad2 y)"

definition comp_date :: "date \<Rightarrow> string" where
  \<comment> \<open>\<open>strftime(date, '%Y/%m/%d')\<close>\<close>
  "comp_date d =
     (case ord2ymd d of (y, m, dd) \<Rightarrow> year_digits y @ ''/'' @ pad2 m @ ''/'' @ pad2 dd)"

definition comp_time :: "time \<Rightarrow> string" where
  \<comment> \<open>\<open>strftime(time, '%H:%M')\<close>\<close>
  "comp_time t = pad2 (t div 3600000000) @ '':'' @ pad2 (t div 60000000 mod 60)"

definition comp_dt :: "datetime \<Rightarrow> string" where
  \<comment> \<open>\<open>strftime(datetime, '%Y/%m/%d %H:%M')\<close>\<close>
  "comp_dt x = comp_date (date_of x) @ '' '' @ comp_time (time_of x)"

section \<open>The virtual clock (class VD)\<close>

record VD =
  date :: date
  date_str :: string
  time :: time
  time_str :: string
  datetime :: datetime
  datetime_str :: string

text \<open>
  The values that reach the parameters typed \<open>TH.dates_n\<close>, \<open>TH.times_n\<close> and
  \<open>TH.datetimes_n\<close>: \<open>None\<close>, a string, a date, a time, a datetime or a clock instance.
\<close>

datatype pyval = PyNone | PyStr string | PyDate date | PyTime time | PyDatetime datetime
  | PyVD VD

definition truthy :: "pyval \<Rightarrow> bool" where
  \<comment> \<open>Python's truth value: \<open>None\<close> and the empty string are false\<close>
  "truthy v = (case v of PyNone \<Rightarrow> False | PyStr s \<Rightarrow> s \<noteq> [] | _ \<Rightarrow> True)"

definition parse_date :: "pyval \<Rightarrow> error + date" where
  "parse_date string =
     (case (if truthy string then string else PyStr d_str) of
        PyStr s \<Rightarrow> strptime_date s
      | _ \<Rightarrow> Inl TypeError)"

definition parse_time :: "pyval \<Rightarrow> error + time" where
  "parse_time string =
     (case (if truthy string then string else PyStr t_str) of
        PyStr s \<Rightarrow> strptime_time s
      | _ \<Rightarrow> Inl TypeError)"

definition parse_dt :: "pyval \<Rightarrow> error + datetime" where
  "parse_dt string =
     (case (if truthy string then string else PyStr dt_str) of
        PyStr s \<Rightarrow> strptime_dt s
      | _ \<Rightarrow> Inl TypeError)"

definition returning :: "error + 'a \<Rightarrow> error + 'a option" where
  \<comment> \<open>a branch that returns a value, in a function that may also return \<open>None\<close>\<close>
  "returning r = (case r of Inl e \<Rightarrow> Inl e | Inr x \<Rightarrow> Inr (Some x))"

definition conv_any_date :: "pyval \<Rightarrow> error + date option" where
  "conv_any_date v =
     (case v of
        PyStr s \<Rightarrow> returning (parse_date (PyStr s))
      | PyDatetime x \<Rightarrow> Inr (Some (date_of x))
      | PyDate d \<Rightarrow> Inr (Some d)
      | PyVD c \<Rightarrow> Inr (Some (date c))
      | _ \<Rightarrow> Inr None)"

definition conv_any_time :: "pyval \<Rightarrow> error + time option" where
  "conv_any_time v =
     (case v of
        PyStr s \<Rightarrow> returning (parse_time (PyStr s))
      | PyDatetime x \<Rightarrow> Inr (Some (time_of x))
      | PyTime t \<Rightarrow> Inr (Some t)
      | PyVD c \<Rightarrow> Inr (Some (time c))
      | _ \<Rightarrow> Inr None)"

definition conv_any_dt :: "pyval \<Rightarrow> error + datetime option" where
  "conv_any_dt v =
     (case v of
        PyStr s \<Rightarrow> returning (parse_dt (PyStr s))
      | PyDatetime x \<Rightarrow> Inr (Some x)
      | PyVD c \<Rightarrow> Inr (Some (datetime c))
      | _ \<Rightarrow> Inr None)"

definition rx_date :: "string \<Rightarrow> pyval" where
  "rx_date s =
     (case re_match_anchored d_regex s of
        None \<Rightarrow> PyNone
      | Some g \<Rightarrow> PyStr (''20'' @ grp g 1 @ ''/'' @ grp g 2 @ ''/'' @ grp g 3))"

definition rx_time :: "string \<Rightarrow> pyval" where
  "rx_time s =
     (case re_match_anchored t_regex s of
        None \<Rightarrow> PyNone
      | Some g \<Rightarrow> PyStr (grp g 1 @ '':'' @ grp g 2))"

definition update :: "VD \<Rightarrow> VD" where
  "update self =
     (let datetime' = combine (date self) (time self)
      in self\<lparr>datetime := datetime',
              date_str := comp_date (date_of datetime'),
              time_str := comp_time (time_of datetime'),
              datetime_str := comp_dt datetime'\<rparr>)"

text \<open>
  The setters. \<open>self.update()\<close> combines \<open>self.date\<close> and \<open>self.time\<close>, which raises
  TypeError when the conversion before it returned \<open>None\<close>.
\<close>

definition set_date :: "VD \<Rightarrow> pyval \<Rightarrow> error + VD" where
  "set_date self v =
     (case (if truthy v then conv_any_date v else returning (parse_date (PyStr d_str))) of
        Inl e \<Rightarrow> Inl e
      | Inr None \<Rightarrow> Inl TypeError
      | Inr (Some d) \<Rightarrow> Inr (update (self\<lparr>date := d\<rparr>)))"

definition set_time :: "VD \<Rightarrow> pyval \<Rightarrow> error + VD" where
  "set_time self v =
     (case (if truthy v then conv_any_time v else returning (parse_time (PyStr t_str))) of
        Inl e \<Rightarrow> Inl e
      | Inr None \<Rightarrow> Inl TypeError
      | Inr (Some t) \<Rightarrow> Inr (update (self\<lparr>time := t\<rparr>)))"

definition set_dt :: "VD \<Rightarrow> pyval \<Rightarrow> error + VD" where
  \<comment> \<open>no \<open>self.update()\<close> here; \<open>None.date()\<close> raises AttributeError\<close>
  "set_dt self v =
     (case (if truthy v then conv_any_dt v else returning (parse_dt (PyStr dt_str))) of
        Inl e \<Rightarrow> Inl e
      | Inr None \<Rightarrow> Inl AttributeError
      | Inr (Some x) \<Rightarrow> Inr (self\<lparr>date := date_of x, time := time_of x\<rparr>))"

definition reset :: "VD \<Rightarrow> error + VD" where
  "reset self =
     (case parse_date (PyStr d_str) of
        Inl e \<Rightarrow> Inl e
      | Inr d \<Rightarrow>
          (case parse_time (PyStr t_str) of
             Inl e \<Rightarrow> Inl e
           | Inr t \<Rightarrow> Inr (update (self\<lparr>date := d, time := t\<rparr>))))"

text \<open>The variants that read the system clock take its reading \<open>now\<close> as a parameter.\<close>

definition set_date_now :: "VD \<Rightarrow> datetime \<Rightarrow> error + VD" where
  "set_date_now self now =
     (case set_date self (PyDatetime now) of Inl e \<Rightarrow> Inl e | Inr c \<Rightarrow> Inr (update c))"

definition set_time_now :: "VD \<Rightarrow> datetime \<Rightarrow> error + VD" where
  "set_time_now self now =
     (case set_time self (PyDatetime now) of Inl e \<Rightarrow> Inl e | Inr c \<Rightarrow> Inr (update c))"

definition set_dt_now :: "VD \<Rightarrow> datetime \<Rightarrow> error + VD" where
  "set_dt_now self now =
     (case set_dt self (PyDatetime now) of Inl e \<Rightarrow> Inl e | Inr c \<Rightarrow> Inr (update c))"

text \<open>
  \<^verbatim>\<open>
  self.set_date(VD.parse_date(VD.rx_date(data['virtual_date']))) \
      if data['virtual_date'] else self.set_date(None)
  self.set_time(VD.parse_time(VD.rx_time(data['virtual_time']))) \
      if data['virtual_time'] else self.set_time(None)
  \<close>
  The two form fields are strings or \<open>None\<close>.
\<close>

definition form_field :: "string option \<Rightarrow> pyval" where
  "form_field f = (case f of None \<Rightarrow> PyNone | Some s \<Rightarrow> PyStr s)"

definition process_form :: "VD \<Rightarrow> string option \<Rightarrow> string option \<Rightarrow> error + VD" where
  "process_form self virtual_date virtual_time =
     (case
        (if truthy (form_field virtual_date)
         then (case parse_date (rx_date (case virtual_date of Some s \<Rightarrow> s | None \<Rightarrow> [])) of
                 Inl e \<Rightarrow> Inl e
               | Inr d \<Rightarrow> set_date self (PyDate d))
         else set_date self PyNone)
      of
        Inl e \<Rightarrow> Inl e
      | Inr self' \<Rightarrow>
          (if truthy (form_field virtual_time)
           then (case parse_time (rx_time (case virtual_time of Some s \<Rightarrow> s | None \<Rightarrow> [])) of
                   Inl e \<Rightarrow> Inl e
                 | Inr t \<Rightarrow> set_time self' (PyTime t))
           else set_time self' PyNone))"

section \<open>Timetables and hours\<close>

text \<open>
  The database rows the scheduling code reads. The columns \<open>time_start\<close>, \<open>time_end\<close>,
  \<open>date_start\<close> and \<open>date_end\<close> hold strings written in the configured formats
  (\<open>%H:%M\<close>, \<open>%Y/%m/%d\<close>) and the code passes each through \<open>VD.parse_time\<close> or
  \<open>VD.parse_date\<close> before use; the records below hold the value that call returns, so a
  row whose column does not parse (a ValueError in Python) is outside the model.
  \<open>hours\<close> and \<open>timetables\<close> are the relationship lists in the order the database
  returns them.
\<close>

record Hour =
  id_hour :: int
  day_of_week :: int
  hour_of_day :: int
  time_start :: time
  time_end :: time

record Timetable =
  id_tt :: int
  date_start :: date
  date_end :: date
  hours :: "Hour list"

record Group =
  timetables :: "Timetable list"

subsection \<open>Timetable.eck\_overlap\<close>

text \<open>
  \<^verbatim>\<open>
  timetables = sorted(timetables, key=lambda x: VD.parse_date(x.date_start))
  for i in range(len(timetables)-1):
      tt1_end     = VD.parse_date(timetables[i].date_end)
      tt2_start   = VD.parse_date(timetables[i + 1].date_start)
      if tt1_end > tt2_start:
          raise TimetableOverlapError(timetables[i].id, timetables[i+1].id)
  \<close>
  \<open>eck_loop tts i n\<close> runs the \<open>n\<close> remaining iterations of the loop, starting at
  index \<open>i\<close>. Python's \<open>sorted\<close> is stable, as \<open>sort_key\<close> is.
\<close>

fun eck_loop :: "Timetable list \<Rightarrow> nat \<Rightarrow> nat \<Rightarrow> error + unit" where
  "eck_loop tts i 0 = Inr ()"
| "eck_loop tts i (Suc n) =
     (if date_start (tts ! Suc i) < date_end (tts ! i)
      then Inl (TimetableOverlapError (id_tt (tts ! i)) (id_tt (tts ! Suc i)))
      else eck_loop tts (Suc i) n)"

definition eck_overlap :: "Timetable list \<Rightarrow> error + unit" where
  "eck_overlap tts =
     (let sorted_tts = sort_key date_start tts
      in eck_loop sorted_tts 0 (length sorted_tts - 1))"

subsection \<open>Timetable.hours\_on\_day and Timetable.is\_active\<close>

text \<open>
  \<open>hours_on_day\<close> is called with the integer \<open>date.weekday()\<close>; its test \<open>day == str\<close>
  compares that integer with the type \<open>str\<close> and is false, so the day is used as it is.
\<close>

definition hours_on_day :: "Timetable \<Rightarrow> int \<Rightarrow> Hour list" where
  "hours_on_day self day =
     filter (\<lambda>hour. day_of_week hour = day)
       (sort_key (\<lambda>x. (day_of_week x, hour_of_day x)) (hours self))"

definition is_active :: "Timetable \<Rightarrow> VD \<Rightarrow> pyval \<Rightarrow> error + bool" where
  \<comment> \<open>\<open>start <= date <= end\<close>; comparing a date with \<open>None\<close> raises TypeError\<close>
  "is_active self vd v =
     (case (if truthy v then conv_any_date v else Inr (Some (date vd))) of
        Inl e \<Rightarrow> Inl e
      | Inr None \<Rightarrow> Inl TypeError
      | Inr (Some d) \<Rightarrow> Inr (date_start self \<le> d \<and> d \<le> date_end self))"

section \<open>Schedule resolution (class Group)\<close>

text \<open>
  \<open>find_e p xs\<close> is the loop \<^verbatim>\<open>for x in xs: if p(x): return x\<close> for a test that may raise:
  the first element that passes, \<open>None\<close> when the loop runs to its end.
\<close>

fun find_e :: "('a \<Rightarrow> error + bool) \<Rightarrow> 'a list \<Rightarrow> error + 'a option" where
  "find_e p [] = Inr None"
| "find_e p (x # xs) =
     (case p x of Inl e \<Rightarrow> Inl e | Inr b \<Rightarrow> if b then Inr (Some x) else find_e p xs)"

definition py_date :: "date option \<Rightarrow> pyval" where
  "py_date d = (case d of None \<Rightarrow> PyNone | Some x \<Rightarrow> PyDate x)"

definition py_dt :: "datetime option \<Rightarrow> pyval" where
  "py_dt d = (case d of None \<Rightarrow> PyNone | Some x \<Rightarrow> PyDatetime x)"

definition py_get :: "'a list \<Rightarrow> int \<Rightarrow> error + 'a" where
  \<comment> \<open>the subscript \<open>xs[i]\<close>, where \<open>xs[-1]\<close> is the last element\<close>
  "py_get xs i =
     (if i < - int (length xs) \<or> int (length xs) \<le> i then Inl IndexError
      else if i < 0 then Inr (xs ! nat (int (length xs) + i))
      else Inr (xs ! nat i))"

definition py_index :: "'a list \<Rightarrow> 'a \<Rightarrow> error + int" where
  \<comment> \<open>\<open>xs.index(x)\<close>\<close>
  "py_index xs x =
     (case find (\<lambda>i. xs ! i = x) [0..<length xs] of
        None \<Rightarrow> Inl ValueError
      | Some i \<Rightarrow> Inr (int i))"

definition hours_truthy :: "Hour list option \<Rightarrow> bool" where
  \<comment> \<open>the truth value of a tuple of hours or \<open>None\<close>\<close>
  "hours_truthy hs = (case hs of None \<Rightarrow> False | Some l \<Rightarrow> l \<noteq> [])"

definition timetable :: "Group \<Rightarrow> VD \<Rightarrow> pyval \<Rightarrow> error + Timetable" where
  "timetable self vd v =
     (case (if truthy v then conv_any_date v else Inr (Some (date vd))) of
        Inl e \<Rightarrow> Inl e
      | Inr d \<Rightarrow>
          (case find_e (\<lambda>tt. is_active tt vd (py_date d)) (timetables self) of
             Inl e \<Rightarrow> Inl e
           | Inr (Some tt) \<Rightarrow> Inr tt
           | Inr None \<Rightarrow>
               (case find_e (\<lambda>tt. case d of None \<Rightarrow> Inl TypeError
                                     | Some x \<Rightarrow> Inr (x < date_start tt)) (timetables self) of
                  Inl e \<Rightarrow> Inl e
                | Inr (Some tt) \<Rightarrow> Inr tt
                | Inr None \<Rightarrow> py_get (timetables self) 0)))"

definition prev_tt :: "Group \<Rightarrow> VD \<Rightarrow> pyval \<Rightarrow> error + Timetable" where
  "prev_tt self vd v =
     (case timetable self vd v of
        Inl e \<Rightarrow> Inl e
      | Inr tt \<Rightarrow>
          (case py_index (timetables self) tt of
             Inl e \<Rightarrow> Inl e
           | Inr i \<Rightarrow> py_get (timetables self) (i - 1)))"

text \<open>
  \<^verbatim>\<open>
  date = vd.date if not date else VD.conv_any_date(date)
  Timetable.eck_overlap(self.timetables)
  for tt in self.timetables:
      if tt.is_active(date):
          return tt.hours_on_day(date.weekday())
  return None
  \<close>
\<close>

definition hours_on_date :: "Group \<Rightarrow> VD \<Rightarrow> pyval \<Rightarrow> error + Hour list option" where
  "hours_on_date self vd v =
     (case (if truthy v then conv_any_date v else Inr (Some (date vd))) of
        Inl e \<Rightarrow> Inl e
      | Inr d \<Rightarrow>
          (case eck_overlap (timetables self) of
             Inl e \<Rightarrow> Inl e
           | Inr _ \<Rightarrow>
               (case find_e (\<lambda>tt. is_active tt vd (py_date d)) (timetables self) of
                  Inl e \<Rightarrow> Inl e
                | Inr None \<Rightarrow> Inr None
                | Inr (Some tt) \<Rightarrow>
                    (case d of
                       None \<Rightarrow> Inl AttributeError
                     | Some x \<Rightarrow> Inr (Some (hours_on_day tt (weekday x)))))))"

text \<open>
  \<^verbatim>\<open>
  datetime = vd.datetime if not datetime else VD.conv_any_dt(datetime)
  if self.hours_on_date(datetime.date()):
      for hour in self.hours_on_date(datetime.date()):
          if VD.parse_time(hour.time_start) <= datetime.time() <= VD.parse_time(hour.time_end):
              return hour
  return None
  \<close>
  The second call of \<open>hours_on_date\<close> returns what the first one did.
\<close>

definition hour_now :: "Group \<Rightarrow> VD \<Rightarrow> pyval \<Rightarrow> error + Hour option" where
  "hour_now self vd v =
     (case (if truthy v then conv_any_dt v else Inr (Some (datetime vd))) of
        Inl e \<Rightarrow> Inl e
      | Inr None \<Rightarrow> Inl AttributeError
      | Inr (Some x) \<Rightarrow>
          (case hours_on_date self vd (PyDate (date_of x)) of
             Inl e \<Rightarrow> Inl e
           | Inr hs \<Rightarrow>
               (if hours_truthy hs
                then Inr (find (\<lambda>hour. time_start hour \<le> time_of x \<and> time_of x \<le> time_end hour)
                            (case hs of None \<Rightarrow> [] | Some l \<Rightarrow> l))
                else Inr None)))"

text \<open>
  \<^verbatim>\<open>
  delta = VD.parse_dt(date) - VD.parse_dt(self.timetable(date).date_start)
  for days in range(0, delta.days):
      if self.hours_on_date(date - dt.timedelta(days=days)):
          return self.hours_on_date(date - dt.timedelta(days=days))
  prev_tt = self.prev_tt(date)
  if prev_tt:
      for day in range(4, 0):
          if prev_tt.hours_on_day(day):
              return prev_tt.hours_on_day(day)
  return None
  \<close>
  \<open>VD.parse_dt\<close> hands its argument to \<open>strptime\<close>, which raises TypeError for anything
  but a string. The column \<open>date_start\<close> is read here as the string \<open>comp_date\<close> writes
  for its date. \<open>range(4, 0)\<close> is empty.
\<close>

definition minus_days :: "pyval \<Rightarrow> int \<Rightarrow> error + pyval" where
  \<comment> \<open>\<open>date - dt.timedelta(days=days)\<close>\<close>
  "minus_days v n =
     (case v of
        PyDatetime x \<Rightarrow>
          (case dt_add x (td_days (- n)) of Inl e \<Rightarrow> Inl e | Inr y \<Rightarrow> Inr (PyDatetime y))
      | PyDate d \<Rightarrow> if valid_date (d - n) then Inr (PyDate (d - n)) else Inl OverflowError
      | _ \<Rightarrow> Inl TypeError)"

fun prev_day_loop :: "Group \<Rightarrow> VD \<Rightarrow> pyval \<Rightarrow> int list \<Rightarrow> error + Hour list option" where
  "prev_day_loop self vd v [] = Inr None"
| "prev_day_loop self vd v (n # ns) =
     (case minus_days v n of
        Inl e \<Rightarrow> Inl e
      | Inr d \<Rightarrow>
          (case hours_on_date self vd d of
             Inl e \<Rightarrow> Inl e
           | Inr hs \<Rightarrow> if hours_truthy hs then Inr hs else prev_day_loop self vd v ns))"

definition hours_prev_day :: "Group \<Rightarrow> VD \<Rightarrow> pyval \<Rightarrow> error + Hour list option" where
  "hours_prev_day self vd v =
     (case parse_dt v of
        Inl e \<Rightarrow> Inl e
      | Inr a \<Rightarrow>
          (case timetable self vd v of
             Inl e \<Rightarrow> Inl e
           | Inr tt \<Rightarrow>
               (case parse_dt (PyStr (comp_date (date_start tt))) of
                  Inl e \<Rightarrow> Inl e
                | Inr b \<Rightarrow>
                    (case prev_day_loop self vd v [0 .. dt_sub a b div us_per_day - 1] of
                       Inl e \<Rightarrow> Inl e
                     | Inr (Some hs) \<Rightarrow> Inr (Some hs)
                     | Inr None \<Rightarrow>
                         (case prev_tt self vd v of
                            Inl e \<Rightarrow> Inl e
                          | Inr p \<Rightarrow> Inr None)))))"

text \<open>
  \<^verbatim>\<open>
  hour_current    = self.hour_now(datetime)
  hours_today     = self.hours_on_date(datetime)
  hours_prev_day  = self.hours_prev_day(datetime)
  if hour_current:
      if hours_today.index[hour_current] >= 1:
          return hours_today[hours_today.index(hour_current) - 1]
  for hour in reversed(hours_today):
      if VD.parse_time(datetime) > VD.parse_time(hour.time_end):
          return hour
  if hours_prev_day:
      return hours_prev_day[-1]
  return None
  \<close>
  \<open>hours_today.index[hour_current]\<close> subscripts the bound method \<open>index\<close>: TypeError
  (AttributeError when \<open>hours_today\<close> is \<open>None\<close>). \<open>reversed(None)\<close> raises TypeError.
\<close>

definition hour_prev :: "Group \<Rightarrow> VD \<Rightarrow> pyval \<Rightarrow> error + Hour option" where
  "hour_prev self vd v =
     (case hour_now self vd v of
        Inl e \<Rightarrow> Inl e
      | Inr hour_current \<Rightarrow>
          (case hours_on_date self vd v of
             Inl e \<Rightarrow> Inl e
           | Inr hours_today \<Rightarrow>
               (case hours_prev_day self vd v of
                  Inl e \<Rightarrow> Inl e
                | Inr hours_prev \<Rightarrow>
                    (case hour_current of
                       Some h \<Rightarrow>
                         (case hours_today of None \<Rightarrow> Inl AttributeError | Some l \<Rightarrow> Inl TypeError)
                     | None \<Rightarrow>
                         (case hours_today of
                            None \<Rightarrow> Inl TypeError
                          | Some l \<Rightarrow>
                              (case find_e (\<lambda>hour. case parse_time v of
                                                      Inl e \<Rightarrow> Inl e
                                                    | Inr t \<Rightarrow> Inr (time_end hour < t)) (rev l) of
                                 Inl e \<Rightarrow> Inl e
                               | Inr (Some hour) \<Rightarrow> Inr (Some hour)
                               | Inr None \<Rightarrow>
                                   (if hours_truthy hours_prev
                                    then Inr (Some (last (case hours_prev of None \<Rightarrow> [] | Some p \<Rightarrow> p)))
                                    else Inr None)))))))"

section \<open>Lateness and absence (class Group)\<close>

text \<open>
  \<^verbatim>\<open>
  datetime    = vd.datetime if not datetime else VD.conv_any_dt(datetime)
  cur_hour    = self.hour_now(datetime)
  hour_start  = VD.parse_time(cur_hour.time_start)
  start_dt    = dt.datetime.combine(datetime.date(), hour_start)
  if cur_hour:
      return datetime.time() > (start_dt + dt.timedelta(minutes=Cf.max_late)).time()
  \<close>
  \<open>cur_hour.time_start\<close> is read before the test of \<open>cur_hour\<close>: AttributeError when there
  is no current hour.
\<close>

definition is_late :: "Group \<Rightarrow> VD \<Rightarrow> pyval \<Rightarrow> error + bool" where
  "is_late self vd v =
     (case (if truthy v then conv_any_dt v else Inr (Some (datetime vd))) of
        Inl e \<Rightarrow> Inl e
      | Inr c \<Rightarrow>
          (case hour_now self vd (py_dt c) of
             Inl e \<Rightarrow> Inl e
           | Inr None \<Rightarrow> Inl AttributeError
           | Inr (Some cur_hour) \<Rightarrow>
               (case c of
                  None \<Rightarrow> Inl AttributeError
                | Some x \<Rightarrow>
                    (case dt_add (combine (date_of x) (time_start cur_hour)) (td_minutes max_late) of
                       Inl e \<Rightarrow> Inl e
                     | Inr limit \<Rightarrow> Inr (time_of limit < time_of x)))))"

text \<open>
  \<^verbatim>\<open>
  datetime = vd.datetime if not datetime else VD.conv_any_dt(datetime)
  if not self.hour_now(datetime):
      return None
  start   = VD.parse_time(self.hour_now(datetime).time_start)
  start   = datetime.combine(datetime.date(), start)
  if start < datetime:
      # if later than max allowed in config, return diff in minutes
      return int((datetime - start).total_seconds() / 60)
  return 0
  \<close>
  \<open>start\<close> and \<open>datetime\<close> lie on the same day, so the quotient is below 1440 and differs
  from the next whole number by at least 1/60000000: the two floating-point divisions
  cannot carry it across a whole number, and \<open>int\<close> yields the integer quotient.
\<close>

definition mins_late :: "Group \<Rightarrow> VD \<Rightarrow> pyval \<Rightarrow> error + int option" where
  "mins_late self vd v =
     (case (if truthy v then conv_any_dt v else Inr (Some (datetime vd))) of
        Inl e \<Rightarrow> Inl e
      | Inr c \<Rightarrow>
          (case hour_now self vd (py_dt c) of
             Inl e \<Rightarrow> Inl e
           | Inr None \<Rightarrow> Inr None
           | Inr (Some cur_hour) \<Rightarrow>
               (case c of
                  None \<Rightarrow> Inl AttributeError
                | Some x \<Rightarrow>
                    (let start = combine (date_of x) (time_start cur_hour)
                     in if start < x then Inr (Some (dt_sub x start div 60000000))
                        else Inr (Some 0)))))"

text \<open>
  \<^verbatim>\<open>
  datetime    = vd.datetime if not datetime else VD.conv_any_dt(datetime)
  cur_hour    = self.hour_now(datetime)
  hour_start  = VD.parse_time(cur_hour.time_start)
  start_dt    = dt.datetime.combine(datetime.date(), hour_start)
  if cur_hour:
      return True if datetime > (start_dt + dt.timedelta(Cf.max_abs)) else False
  \<close>
\<close>

definition is_absent :: "Group \<Rightarrow> VD \<Rightarrow> pyval \<Rightarrow> error + bool" where
  "is_absent self vd v =
     (case (if truthy v then conv_any_dt v else Inr (Some (datetime vd))) of
        Inl e \<Rightarrow> Inl e
      | Inr c \<Rightarrow>
          (case hour_now self vd (py_dt c) of
             Inl e \<Rightarrow> Inl e
           | Inr None \<Rightarrow> Inl AttributeError
           | Inr (Some cur_hour) \<Rightarrow>
               (case c of
                  None \<Rightarrow> Inl AttributeError
                | Some x \<Rightarrow>
                    (case dt_add (combine (date_of x) (time_start cur_hour)) (td_days max_abs) of
                       Inl e \<Rightarrow> Inl e
                     | Inr limit \<Rightarrow> Inr (limit < x)))))"

text \<open>
  \<^verbatim>\<open>
  datetime    = VD.conv_any_dt(datetime) or vd.datetime
  last_tt     = sorted(self.timetables, key=lambda x: VD.parse_date(x.date_end))[-1]
  hours       = sorted(last_tt.hours, key=lambda hour: \
      (hour.day_of_week, dt.datetime.combine(datetime.date(), VD.parse_time(hour.time_end))))
  last_hour   = hours[-1] if hours else None
  if last_tt and last_hour:
      if datetime > dt.datetime.combine(VD.parse_date(last_tt.date_end),
                                        VD.parse_time(last_hour.time_end)):
          return True
  return False
  \<close>
\<close>

definition is_off :: "Group \<Rightarrow> VD \<Rightarrow> pyval \<Rightarrow> error + bool" where
  "is_off self vd v =
     (case conv_any_dt v of
        Inl e \<Rightarrow> Inl e
      | Inr c \<Rightarrow>
          (let x = (case c of None \<Rightarrow> datetime vd | Some y \<Rightarrow> y)
           in case py_get (sort_key date_end (timetables self)) (- 1) of
                Inl e \<Rightarrow> Inl e
              | Inr last_tt \<Rightarrow>
                  (let hs = sort_key (\<lambda>hour. (day_of_week hour, combine (date_of x) (time_end hour)))
                              (hours last_tt)
                   in if hs \<noteq> []
                      then Inr (combine (date_end last_tt) (time_end (last hs)) < x)
                      else Inr False)))"

section \<open>Status derivation (class Student)\<close>

text \<open>
  A row of the table \<open>record\<close>. \<open>date_rec\<close> is the column \<open>date\<close> as stored (the query
  compares it with the string \<open>VD.comp_date\<close> returns); \<open>time_rec\<close> is the value
  \<open>VD.parse_time\<close> returns for the column \<open>time\<close>.
\<close>

record Record =
  student_id :: int
  hour_id :: int
  date_rec :: string
  time_rec :: time
  absent :: bool
  late :: bool

record Student =
  id_student :: int
  group :: Group
  status :: "string option"

text \<open>
  \<^verbatim>\<open>
  datetime = VD.conv_any_dt(datetime) or vd.datetime
  if not self.group.hour_now():
      self.status = 'not_expected'
      return
  hour    = self.group.hour_now(datetime)
  records = Record.query.filter_by(student_id = self.id, hour_id = hour.id,
                                   date = VD.comp_date(datetime.date())).all()
  # if records are found, set record to most recent record before current vd.datetime
  record = None
  for rec in reversed(records):
      r_dt = dt.datetime.combine(datetime.date(), VD.parse_time(rec.time))
      if r_dt <= vd.datetime:
          record = rec
  \<close>
  followed by the choice of the status from \<open>record\<close>, or from the thresholds
  \<open>dt_absent(hour.time_start)\<close> and \<open>dt_late(hour.time_start)\<close> when \<open>record\<close> is \<open>None\<close>.
  \<open>db\<close> is the table \<open>record\<close> in the order the query returns its rows.
\<close>

definition select_record :: "VD \<Rightarrow> datetime \<Rightarrow> Record list \<Rightarrow> Record option" where
  "select_record vd x records =
     foldl (\<lambda>record rec. if combine (date_of x) (time_rec rec) \<le> datetime vd
                           then Some rec else record)
       None (rev records)"

definition update_status :: "Student \<Rightarrow> VD \<Rightarrow> Record list \<Rightarrow> pyval \<Rightarrow> error + Student" where
  "update_status self vd db v =
     (case conv_any_dt v of
        Inl e \<Rightarrow> Inl e
      | Inr c \<Rightarrow>
          (let x = (case c of None \<Rightarrow> datetime vd | Some y \<Rightarrow> y)
           in case hour_now (group self) vd PyNone of
                Inl e \<Rightarrow> Inl e
              | Inr None \<Rightarrow> Inr (self\<lparr>status := Some ''not_expected''\<rparr>)
              | Inr (Some h0) \<Rightarrow>
                  (case hour_now (group self) vd (PyDatetime x) of
                     Inl e \<Rightarrow> Inl e
                   | Inr None \<Rightarrow> Inl AttributeError
                   | Inr (Some hour) \<Rightarrow>
                       (let records = filter (\<lambda>r. student_id r = id_student self
                                                  \<and> hour_id r = id_hour hour
                                                  \<and> date_rec r = comp_date (date_of x)) db
                        in case select_record vd x records of
                             Some record \<Rightarrow>
                               (if absent record
                                then Inr (self\<lparr>status := Some ''absent_known''\<rparr>)
                                else if late record \<and> \<not> absent record
                                then Inr (self\<lparr>status := Some ''late_known''\<rparr>)
                                else Inr (self\<lparr>status := Some ''present_known''\<rparr>))
                           | None \<Rightarrow>
                               (case dt_add (combine (date_of x) (time_start hour))
                                       (td_minutes max_abs) of
                                  Inl e \<Rightarrow> Inl e
                                | Inr t_absent \<Rightarrow>
                                    (if t_absent < x
                                     then Inr (self\<lparr>status := Some ''absent_unknown''\<rparr>)
                                     else
                                       (case dt_add (combine (date_of x) (time_start hour))
                                               (td_minutes max_late) of
                                          Inl e \<Rightarrow> Inl e
                                        | Inr t_late \<Rightarrow>
                                            (if t_late < x
                                             then Inr (self\<lparr>status := Some ''late_unknown''\<rparr>)
                                             else Inr (self\<lparr>status := Some ''present_unknown''\<rparr>)))))))))"

section \<open>Example data\<close>

text \<open>
  One timetable, 2021-08-30 to 2022-06-30, with two Monday hours, 08:30 to 09:15 and
  09:20 to 10:05. 2022-01-17 (ordinal 738172) is a Monday.
\<close>

definition hour1 :: Hour where
  "hour1 = \<lparr>id_hour = 1, day_of_week = 0, hour_of_day = 1,
            time_start = hm 8 30, time_end = hm 9 15\<rparr>"

definition hour2 :: Hour where
  "hour2 = \<lparr>id_hour = 2, day_of_week = 0, hour_of_day = 2,
            time_start = hm 9 20, time_end = hm 10 5\<rparr>"

definition tt_year :: Timetable where
  "tt_year = \<lparr>id_tt = 1, date_start = 738032, date_end = 738336, hours = [hour1, hour2]\<rparr>"

definition group1 :: Group where
  "group1 = \<lparr>timetables = [tt_year]\<rparr>"

definition monday :: date where
  "monday = 738172"

definition vd_at :: "datetime \<Rightarrow> VD" where
  \<comment> \<open>the clock after its date and time were set to those of \<open>x\<close>\<close>
  "vd_at x = update \<lparr>date = date_of x, date_str = [], time = time_of x, time_str = [],
                     datetime = x, datetime_str = []\<rparr>"

definition vd_default :: VD where
  \<comment> \<open>the clock as \<open>VD()\<close> creates it: 2022/01/20 15:30\<close>
  "vd_default = vd_at (738175, hm 15 30)"

text \<open>
  Two timetables of one group, 2021-09-01 to 2021-12-01 and 2021-11-01 to 2022-02-01,
  which overlap; 2021-11-01 (ordinal 738095) is a Monday.
\<close>

definition tt_autumn :: Timetable where
  "tt_autumn = \<lparr>id_tt = 1, date_start = 738034, date_end = 738125, hours = [hour1]\<rparr>"

definition tt_winter :: Timetable where
  "tt_winter = \<lparr>id_tt = 2, date_start = 738095, date_end = 738187, hours = [hour1]\<rparr>"

definition group_overlap :: Group where
  "group_overlap = \<lparr>timetables = [tt_autumn, tt_winter]\<rparr>"

text \<open>
  A timetable whose second Monday hour, 09:00 to 09:15, lies inside its first one,
  08:30 to 10:05.
\<close>

definition hour_double :: Hour where
  "hour_double = \<lparr>id_hour = 3, day_of_week = 0, hour_of_day = 1,
                  time_start = hm 8 30, time_end = hm 10 5\<rparr>"

definition hour_inner :: Hour where
  "hour_inner = \<lparr>id_hour = 4, day_of_week = 0, hour_of_day = 2,
                 time_start = hm 9 0, time_end = hm 9 15\<rparr>"

definition group_nested :: Group where
  "group_nested = \<lparr>timetables =
     [\<lparr>id_tt = 3, date_start = 738032, date_end = 738336, hours = [hour_double, hour_inner]\<rparr>]\<rparr>"

text \<open>
  Two timetables that meet on Wednesday 2021-12-01 (ordinal 738125), the last day of the
  first and the first day of the second; only the second has an hour, Wednesday 10:00
  to 11:00.
\<close>

definition hour_wed :: Hour where
  "hour_wed = \<lparr>id_hour = 5, day_of_week = 2, hour_of_day = 1,
               time_start = hm 10 0, time_end = hm 11 0\<rparr>"

definition tt_until_dec :: Timetable where
  "tt_until_dec = \<lparr>id_tt = 5, date_start = 738034, date_end = 738125, hours = []\<rparr>"

definition tt_from_dec :: Timetable where
  "tt_from_dec = \<lparr>id_tt = 6, date_start = 738125, date_end = 738187, hours = [hour_wed]\<rparr>"

definition group_boundary :: Group where
  "group_boundary = \<lparr>timetables = [tt_until_dec, tt_from_dec]\<rparr>"

text \<open>A student of \<open>group1\<close> with two check-ins in the first hour of the Monday.\<close>

definition student1 :: Student where
  "student1 = \<lparr>id_student = 7, group = group1, status = None\<rparr>"

definition rec_0831 :: Record where
  "rec_0831 = \<lparr>student_id = 7, hour_id = 1, date_rec = ''2022/01/17'', time_rec = hm 8 31,
               absent = False, late = False\<rparr>"

definition rec_0850 :: Record where
  "rec_0850 = \<lparr>student_id = 7, hour_id = 1, date_rec = ''2022/01/17'', time_rec = hm 8 50,
               absent = False, late = True\<rparr>"

definition clock_inv :: "VD \<Rightarrow> bool" where
  \<comment> \<open>the derived fields of the clock are those of its date and time\<close>
  "clock_inv c =
     (datetime c = combine (date c) (time c) \<and>
      date_str c = comp_date (date c) \<and>
      time_str c = comp_time (time c) \<and>
      datetime_str c = comp_dt (combine (date c) (time c)))"

section \<open>Overlap check\<close>

lemma eck_loop_Inr:
  "eck_loop s i n = Inr u \<longleftrightarrow>
     (\<forall>j. i \<le> j \<and> j < i + n \<longrightarrow> date_end (s ! j) \<le> date_start (s ! Suc j))"
proof (induction n arbitrary: i)
  case 0
  show ?case by simp
next
  case (Suc n)
  show ?case
  proof (cases "date_start (s ! Suc i) < date_end (s ! i)")
    case True
    then have "\<not> date_end (s ! i) \<le> date_start (s ! Suc i)" by simp
    moreover have "i \<le> i \<and> i < i + Suc n" by simp
    ultimately have "\<not> (\<forall>j. i \<le> j \<and> j < i + Suc n \<longrightarrow> date_end (s ! j) \<le> date_start (s ! Suc j))"
      by blast
    with True show ?thesis by simp
  next
    case False
    have "(\<forall>j. i \<le> j \<and> j < i + Suc n \<longrightarrow> date_end (s ! j) \<le> date_start (s ! Suc j)) \<longleftrightarrow>
          (\<forall>j. Suc i \<le> j \<and> j < Suc i + n \<longrightarrow> date_end (s ! j) \<le> date_start (s ! Suc j))"
    proof
      assume h: "\<forall>j. i \<le> j \<and> j < i + Suc n \<longrightarrow> date_end (s ! j) \<le> date_start (s ! Suc j)"
      show "\<forall>j. Suc i \<le> j \<and> j < Suc i + n \<longrightarrow> date_end (s ! j) \<le> date_start (s ! Suc j)"
        using h by simp
    next
      assume h: "\<forall>j. Suc i \<le> j \<and> j < Suc i + n \<longrightarrow> date_end (s ! j) \<le> date_start (s ! Suc j)"
      show "\<forall>j. i \<le> j \<and> j < i + Suc n \<longrightarrow> date_end (s ! j) \<le> date_start (s ! Suc j)"
      proof (intro allI impI)
        fix j assume j: "i \<le> j \<and> j < i + Suc n"
        show "date_end (s ! j) \<le> date_start (s ! Suc j)"
        proof (cases "j = i")
          case True
          with False show ?thesis by simp
        next
          case False
          with j have "Suc i \<le> j \<and> j < Suc i + n" by simp
          with h show ?thesis by blast
        qed
      qed
    qed
    with False Suc.IH [of "Suc i"] show ?thesis by simp
  qed
qed

lemma eck_loop_Inl:
  "eck_loop s i n = Inl e \<Longrightarrow>
     \<exists>j. i \<le> j \<and> j < i + n \<and> date_start (s ! Suc j) < date_end (s ! j) \<and>
         e = TimetableOverlapError (id_tt (s ! j)) (id_tt (s ! Suc j)) \<and>
         (\<forall>k. i \<le> k \<and> k < j \<longrightarrow> date_end (s ! k) \<le> date_start (s ! Suc k))"
proof (induction n arbitrary: i)
  case 0
  then show ?case by simp
next
  case (Suc n)
  show ?case
  proof (cases "date_start (s ! Suc i) < date_end (s ! i)")
    case True
    with Suc.prems have "e = TimetableOverlapError (id_tt (s ! i)) (id_tt (s ! Suc i))"
      by simp
    with True show ?thesis
      by (intro exI [of _ i]) simp
  next
    case False
    with Suc.prems have "eck_loop s (Suc i) n = Inl e" by simp
    from Suc.IH [OF this] obtain j where j:
      "Suc i \<le> j" "j < Suc i + n" "date_start (s ! Suc j) < date_end (s ! j)"
      "e = TimetableOverlapError (id_tt (s ! j)) (id_tt (s ! Suc j))"
      "\<forall>k. Suc i \<le> k \<and> k < j \<longrightarrow> date_end (s ! k) \<le> date_start (s ! Suc k)"
      by blast
    have "\<forall>k. i \<le> k \<and> k < j \<longrightarrow> date_end (s ! k) \<le> date_start (s ! Suc k)"
    proof (intro allI impI)
      fix k assume k: "i \<le> k \<and> k < j"
      show "date_end (s ! k) \<le> date_start (s ! Suc k)"
      proof (cases "k = i")
        case True
        with False show ?thesis by simp
      next
        case False
        with k have "Suc i \<le> k \<and> k < j" by simp
        with j(5) show ?thesis by blast
      qed
    qed
    with j show ?thesis
      by (intro exI [of _ j]) simp
  qed
qed

text \<open>
  C5. \<open>eck_overlap\<close> raises exactly when, in the list sorted by \<open>date_start\<close>, some
  timetable ends strictly after its successor starts; an equal end and start do not
  raise. The exception raised is a TimetableOverlapError whose two arguments are the
  identifiers of such an adjacent pair, the first one in sorted order.
\<close>

theorem eck_overlap_raises_iff:
  "((\<exists>e. eck_overlap tts = Inl e) \<longleftrightarrow>
      (\<exists>i. Suc i < length tts \<and>
           date_start (sort_key date_start tts ! Suc i) < date_end (sort_key date_start tts ! i)))
   \<and> (\<forall>e. eck_overlap tts = Inl e \<longrightarrow>
      (\<exists>i. Suc i < length tts \<and>
           date_start (sort_key date_start tts ! Suc i) < date_end (sort_key date_start tts ! i) \<and>
           e = TimetableOverlapError (id_tt (sort_key date_start tts ! i))
                 (id_tt (sort_key date_start tts ! Suc i)) \<and>
           (\<forall>k < i. date_end (sort_key date_start tts ! k)
                      \<le> date_start (sort_key date_start tts ! Suc k))))"
proof -
  define s where "s = sort_key date_start tts"
  have len: "length s = length tts" by (simp add: s_def)
  have run: "eck_overlap tts = eck_loop s 0 (length tts - 1)"
    by (simp add: eck_overlap_def s_def Let_def)
  have raised: "\<exists>i. Suc i < length tts \<and> date_start (s ! Suc i) < date_end (s ! i) \<and>
      e = TimetableOverlapError (id_tt (s ! i)) (id_tt (s ! Suc i)) \<and>
      (\<forall>k < i. date_end (s ! k) \<le> date_start (s ! Suc k))"
    if "eck_overlap tts = Inl e" for e
  proof -
    from that run have "eck_loop s 0 (length tts - 1) = Inl e" by simp
    from eck_loop_Inl [OF this] obtain j where
      "j < length tts - 1" "date_start (s ! Suc j) < date_end (s ! j)"
      "e = TimetableOverlapError (id_tt (s ! j)) (id_tt (s ! Suc j))"
      "\<forall>k. k < j \<longrightarrow> date_end (s ! k) \<le> date_start (s ! Suc k)"
      by auto
    then show ?thesis
      by (intro exI [of _ j]) auto
  qed
  have quiet: "\<exists>e. eck_overlap tts = Inl e"
    if "Suc i < length tts" "date_start (s ! Suc i) < date_end (s ! i)" for i
  proof (cases "eck_overlap tts")
    case (Inl e)
    then show ?thesis by blast
  next
    case (Inr u)
    with run have "eck_loop s 0 (length tts - 1) = Inr u" by simp
    then have "\<forall>j. 0 \<le> j \<and> j < 0 + (length tts - 1) \<longrightarrow> date_end (s ! j) \<le> date_start (s ! Suc j)"
      by (simp only: eck_loop_Inr)
    moreover from that(1) have "i < 0 + (length tts - 1)" by simp
    ultimately have "date_end (s ! i) \<le> date_start (s ! Suc i)" by blast
    with that(2) show ?thesis by simp
  qed
  show ?thesis
    unfolding s_def [symmetric] using raised quiet by blast
qed

theorem eck_overlap_raises_iff_witness:
  "eck_overlap [tt_autumn, tt_winter] = Inl (TimetableOverlapError 1 2) \<and>
   (\<exists>i. Suc i < length [tt_autumn, tt_winter] \<and>
        date_start (sort_key date_start [tt_autumn, tt_winter] ! Suc i)
          < date_end (sort_key date_start [tt_autumn, tt_winter] ! i) \<and>
        TimetableOverlapError 1 2 =
          TimetableOverlapError (id_tt (sort_key date_start [tt_autumn, tt_winter] ! i))
            (id_tt (sort_key date_start [tt_autumn, tt_winter] ! Suc i)))"
proof -
  have raised: "eck_overlap [tt_autumn, tt_winter] = Inl (TimetableOverlapError 1 2)"
    by code_simp
  from eck_overlap_raises_iff [of "[tt_autumn, tt_winter]"]
  have "\<forall>e. eck_overlap [tt_autumn, tt_winter] = Inl e \<longrightarrow>
      (\<exists>i. Suc i < length [tt_autumn, tt_winter] \<and>
           date_start (sort_key date_start [tt_autumn, tt_winter] ! Suc i)
             < date_end (sort_key date_start [tt_autumn, tt_winter] ! i) \<and>
           e = TimetableOverlapError (id_tt (sort_key date_start [tt_autumn, tt_winter] ! i))
                 (id_tt (sort_key date_start [tt_autumn, tt_winter] ! Suc i)) \<and>
           (\<forall>k < i. date_end (sort_key date_start [tt_autumn, tt_winter] ! k)
                      \<le> date_start (sort_key date_start [tt_autumn, tt_winter] ! Suc k)))"
    by (rule conjunct2)
  with raised show ?thesis by blast
qed

section \<open>The current hour\<close>

lemma find_app:
  "find P (xs @ ys) = (case find P xs of None \<Rightarrow> find P ys | Some x \<Rightarrow> Some x)"
  by (induction xs) simp_all

lemma find_e_is_active:
  "find_e (\<lambda>tt. is_active tt vd (PyDate d)) tts
     = Inr (find (\<lambda>tt. date_start tt \<le> d \<and> d \<le> date_end tt) tts)"
  by (induction tts) (simp_all add: is_active_def truthy_def conv_any_date_def)

lemma hours_on_date_PyDate:
  "hours_on_date g vd (PyDate d) =
     (case eck_overlap (timetables g) of
        Inl e \<Rightarrow> Inl e
      | Inr u \<Rightarrow>
          Inr (case find (\<lambda>tt. date_start tt \<le> d \<and> d \<le> date_end tt) (timetables g) of
                 None \<Rightarrow> None
               | Some tt \<Rightarrow> Some (hours_on_day tt (weekday d))))"
  by (simp add: hours_on_date_def truthy_def conv_any_date_def py_date_def find_e_is_active
      split: sum.splits option.splits)

lemma hour_now_PyDatetime:
  "hour_now g vd (PyDatetime x) =
     (case eck_overlap (timetables g) of
        Inl e \<Rightarrow> Inl e
      | Inr u \<Rightarrow>
          Inr (find (\<lambda>hour. time_start hour \<le> time_of x \<and> time_of x \<le> time_end hour)
                 (case find (\<lambda>tt. date_start tt \<le> date_of x \<and> date_of x \<le> date_end tt)
                         (timetables g) of
                    None \<Rightarrow> []
                  | Some tt \<Rightarrow> hours_on_day tt (weekday (date_of x)))))"
  by (simp add: hour_now_def truthy_def conv_any_dt_def hours_on_date_PyDate hours_truthy_def
      split: sum.splits option.splits)

lemma hour_now_PyNone: "hour_now g vd PyNone = hour_now g vd (PyDatetime (datetime vd))"
  by (simp add: hour_now_def truthy_def conv_any_dt_def)

text \<open>
  The hours of a day, as \<open>hours_on_day\<close> lists them: those of the timetable with that
  day_of_week, by ascending hour_of_day, hours of equal hour_of_day in stored order.
\<close>

lemma hours_on_day_set:
  "set (hours_on_day tt w) = {h \<in> set (hours tt). day_of_week h = w}"
  by (auto simp: hours_on_day_def)

lemma hours_on_day_sorted: "sorted (map hour_of_day (hours_on_day tt w))"
proof -
  let ?key = "\<lambda>x. (day_of_week x, hour_of_day x)"
  have "sorted (map ?key (sort_key ?key (hours tt)))"
    by (rule sorted_sort_key)
  then have "sorted (map ?key (hours_on_day tt w))"
    unfolding hours_on_day_def by (rule sorted_filter)
  then have "sorted_wrt (\<lambda>a b. ?key a \<le> ?key b) (hours_on_day tt w)"
    by (simp add: sorted_map)
  then have "sorted_wrt (\<lambda>a b. hour_of_day a \<le> hour_of_day b) (hours_on_day tt w)"
  proof (rule sorted_wrt_mono_rel [rotated])
    fix a b
    assume "a \<in> set (hours_on_day tt w)" "b \<in> set (hours_on_day tt w)" "?key a \<le> ?key b"
    then show "hour_of_day a \<le> hour_of_day b"
      by (simp add: hours_on_day_set less_eq_prod_def)
  qed
  then show ?thesis by (simp add: sorted_map)
qed

lemma find_sorted_least:
  "sorted (map f xs) \<Longrightarrow> find P xs = Some x \<Longrightarrow> y \<in> set xs \<Longrightarrow> P y \<Longrightarrow> f x \<le> f y"
  by (induction xs) (auto split: if_splits)

lemma find_filter_keeps:
  "find P xs = Some h \<Longrightarrow> Q h \<Longrightarrow> find P (filter Q xs) = Some h"
  by (induction xs) (auto split: if_splits)

lemma hours_on_day_same_ordinal:
  "filter (\<lambda>h. hour_of_day h = n) (hours_on_day tt w)
     = filter (\<lambda>h. day_of_week h = w \<and> hour_of_day h = n) (hours tt)"
proof -
  let ?key = "\<lambda>x. (day_of_week x, hour_of_day x)"
  have "filter (\<lambda>h. hour_of_day h = n) (hours_on_day tt w)
        = filter (\<lambda>h. ?key h = (w, n)) (sort_key ?key (hours tt))"
    by (simp add: hours_on_day_def conj_commute)
  also have "\<dots> = filter (\<lambda>h. ?key h = (w, n)) (hours tt)"
    by (rule sort_key_stable)
  finally show ?thesis by simp
qed

lemma find_filter_conj:
  "find P (filter (\<lambda>h. A h \<and> B h) xs) = find (\<lambda>h. A h \<and> P h) (filter B xs)"
  by (induction xs) auto

text \<open>
  C9, as stated, fails in three ways. \<open>hour_now\<close> runs the overlap check of
  \<open>hours_on_date\<close> first: in \<open>group_overlap\<close> the first hour of Monday 2021-11-01 contains
  08:40, and \<open>hour_now\<close> raises TimetableOverlapError instead of returning it. Where two
  hours of a day contain the instant, the one listed first is returned: in
  \<open>group_nested\<close>, at 09:15, the time_end of \<open>hour_inner\<close>, \<open>hour_now\<close> returns
  \<open>hour_double\<close>. And only the first timetable whose date range holds the date is read:
  \<open>group_boundary\<close> passes the overlap check, its second timetable is active on
  2021-12-01 and has an hour containing 10:30, and \<open>hour_now\<close> returns \<open>None\<close>, because
  the first timetable is active on that day too and has no hours.
\<close>

theorem hour_now_overlapping_timetables_raise:
  "hours_on_day tt_autumn (weekday 738095) = [hour1] \<and>
   time_start hour1 \<le> hm 8 40 \<and> hm 8 40 \<le> time_end hour1 \<and>
   hour_now group_overlap vd_default (PyDatetime (738095, hm 8 40))
     = Inl (TimetableOverlapError 1 2) \<and>
   time_end hour_inner = hm 9 15 \<and> hour_double \<noteq> hour_inner \<and>
   hour_now group_nested vd_default (PyDatetime (monday, hm 9 15)) = Inr (Some hour_double) \<and>
   eck_overlap (timetables group_boundary) = Inr () \<and>
   date_start tt_from_dec \<le> 738125 \<and> 738125 \<le> date_end tt_from_dec \<and>
   hours_on_day tt_from_dec (weekday 738125) = [hour_wed] \<and>
   time_start hour_wed \<le> hm 10 30 \<and> hm 10 30 \<le> time_end hour_wed \<and>
   hour_now group_boundary vd_default (PyDatetime (738125, hm 10 30)) = Inr None"
  by code_simp

text \<open>
  C9, amended. Call a timetable active when its inclusive range from date_start to
  date_end holds the instant's date, and say that an hour fits when its day_of_week is
  the instant's weekday and its inclusive range from time_start to time_end contains
  the instant's time. \<open>hour_now\<close> raises what the overlap check raises. When the check
  passes and no timetable of the group is active, it returns \<open>None\<close>. When the check
  passes, it reads the first active timetable in the order of the group's list, and
  only that one: it returns \<open>None\<close> when no hour of that timetable fits; otherwise it
  returns an hour of that timetable that fits, one of least hour_of_day among those
  that fit and the first stored among the fitting hours of that hour_of_day. So a
  fitting hour is returned itself when every other fitting hour of that timetable has
  a greater hour_of_day, and an instant at the time_end of an hour of that weekday
  (whose time_start is not after its time_end) gets a fitting hour whose hour_of_day is
  not greater.
\<close>

theorem hour_now_first_containing_slot:
  fixes g :: Group and vd :: VD and x :: datetime
  defines "active \<equiv> \<lambda>tt. date_start tt \<le> date_of x \<and> date_of x \<le> date_end tt"
  defines "fits \<equiv> \<lambda>hour. day_of_week hour = weekday (date_of x) \<and>
                          time_start hour \<le> time_of x \<and> time_of x \<le> time_end hour"
  shows
   "(\<forall>e. eck_overlap (timetables g) = Inl e \<longrightarrow> hour_now g vd (PyDatetime x) = Inl e)
    \<and> (eck_overlap (timetables g) = Inr () \<longrightarrow> (\<forall>tt \<in> set (timetables g). \<not> active tt) \<longrightarrow>
         hour_now g vd (PyDatetime x) = Inr None)
    \<and> (\<forall>pre tt post.
         eck_overlap (timetables g) = Inr () \<and> timetables g = pre @ tt # post \<and>
         active tt \<and> (\<forall>p \<in> set pre. \<not> active p) \<longrightarrow>
           hour_now g vd (PyDatetime x) =
             Inr (find (\<lambda>hour. time_start hour \<le> time_of x \<and> time_of x \<le> time_end hour)
                    (hours_on_day tt (weekday (date_of x))))
         \<and> ((\<forall>h \<in> set (hours tt). \<not> fits h) \<longrightarrow> hour_now g vd (PyDatetime x) = Inr None)
         \<and> ((\<exists>h \<in> set (hours tt). fits h) \<longrightarrow> (\<exists>h. hour_now g vd (PyDatetime x) = Inr (Some h)))
         \<and> (\<forall>h. hour_now g vd (PyDatetime x) = Inr (Some h) \<longrightarrow>
               h \<in> set (hours tt) \<and> fits h \<and>
               (\<forall>h' \<in> set (hours tt). fits h' \<longrightarrow> hour_of_day h \<le> hour_of_day h') \<and>
               find fits (filter (\<lambda>h'. hour_of_day h' = hour_of_day h) (hours tt)) = Some h)
         \<and> (\<forall>h \<in> set (hours tt).
               fits h \<and> (\<forall>h' \<in> set (hours tt). fits h' \<and> h' \<noteq> h \<longrightarrow> hour_of_day h < hour_of_day h')
               \<longrightarrow> hour_now g vd (PyDatetime x) = Inr (Some h))
         \<and> (\<forall>h \<in> set (hours tt).
               day_of_week h = weekday (date_of x) \<and> time_start h \<le> time_end h \<and>
               time_of x = time_end h \<longrightarrow>
               (\<exists>h'. hour_now g vd (PyDatetime x) = Inr (Some h') \<and> fits h' \<and>
                     hour_of_day h' \<le> hour_of_day h)))"
proof -
  let ?now = "hour_now g vd (PyDatetime x)"
  let ?w = "weekday (date_of x)"
  let ?ok = "\<lambda>hour. time_start hour \<le> time_of x \<and> time_of x \<le> time_end hour"
  have run: "?now =
      (case eck_overlap (timetables g) of
         Inl e \<Rightarrow> Inl e
       | Inr u \<Rightarrow> Inr (find ?ok (case find active (timetables g) of
                                   None \<Rightarrow> []
                                 | Some tt \<Rightarrow> hours_on_day tt ?w)))"
    unfolding active_def by (rule hour_now_PyDatetime)
  have raises: "?now = Inl e" if "eck_overlap (timetables g) = Inl e" for e
    using that run by simp
  have inactive: "?now = Inr None"
    if "eck_overlap (timetables g) = Inr ()" "\<forall>tt \<in> set (timetables g). \<not> active tt"
  proof -
    from that(2) have "find active (timetables g) = None" by (simp add: find_None_iff)
    with that(1) run show ?thesis by simp
  qed
  have body:
    "?now = Inr (find ?ok (hours_on_day tt ?w))
     \<and> ((\<forall>h \<in> set (hours tt). \<not> fits h) \<longrightarrow> ?now = Inr None)
     \<and> ((\<exists>h \<in> set (hours tt). fits h) \<longrightarrow> (\<exists>h. ?now = Inr (Some h)))
     \<and> (\<forall>h. ?now = Inr (Some h) \<longrightarrow>
           h \<in> set (hours tt) \<and> fits h \<and>
           (\<forall>h' \<in> set (hours tt). fits h' \<longrightarrow> hour_of_day h \<le> hour_of_day h') \<and>
           find fits (filter (\<lambda>h'. hour_of_day h' = hour_of_day h) (hours tt)) = Some h)
     \<and> (\<forall>h \<in> set (hours tt).
           fits h \<and> (\<forall>h' \<in> set (hours tt). fits h' \<and> h' \<noteq> h \<longrightarrow> hour_of_day h < hour_of_day h')
           \<longrightarrow> ?now = Inr (Some h))
     \<and> (\<forall>h \<in> set (hours tt).
           day_of_week h = ?w \<and> time_start h \<le> time_end h \<and> time_of x = time_end h \<longrightarrow>
           (\<exists>h'. ?now = Inr (Some h') \<and> fits h' \<and> hour_of_day h' \<le> hour_of_day h))"
    if check: "eck_overlap (timetables g) = Inr ()"
      and split: "timetables g = pre @ tt # post"
      and act: "active tt"
      and before: "\<forall>p \<in> set pre. \<not> active p"
    for pre tt post
  proof -
    let ?L = "hours_on_day tt ?w"
    from before have "find active pre = None" by (simp add: find_None_iff)
    with split act have "find active (timetables g) = Some tt" by (simp add: find_app)
    with check run have now: "?now = Inr (find ?ok ?L)" by simp
    have mem: "h \<in> set ?L \<and> ?ok h \<longleftrightarrow> h \<in> set (hours tt) \<and> fits h" for h
      by (auto simp: hours_on_day_set fits_def)
    have none: "?now = Inr None" if "\<forall>h \<in> set (hours tt). \<not> fits h"
    proof -
      from that mem have "\<forall>h \<in> set ?L. \<not> ?ok h" by blast
      then have "find ?ok ?L = None" by (simp add: find_None_iff)
      with now show ?thesis by simp
    qed
    have some: "\<exists>h. ?now = Inr (Some h)" if "\<exists>h \<in> set (hours tt). fits h"
    proof -
      from that mem obtain h where "h \<in> set ?L" "?ok h" by blast
      then have "find ?ok ?L \<noteq> None" by (auto simp: find_None_iff)
      with now show ?thesis by auto
    qed
    have found: "h \<in> set (hours tt) \<and> fits h \<and>
        (\<forall>h' \<in> set (hours tt). fits h' \<longrightarrow> hour_of_day h \<le> hour_of_day h') \<and>
        find fits (filter (\<lambda>h'. hour_of_day h' = hour_of_day h) (hours tt)) = Some h"
      if "?now = Inr (Some h)" for h
    proof -
      from that now have f: "find ?ok ?L = Some h" by simp
      then have "h \<in> set ?L \<and> ?ok h" by (auto simp: find_Some_iff)
      with mem have in_tt: "h \<in> set (hours tt) \<and> fits h" by blast
      have least: "hour_of_day h \<le> hour_of_day h'" if "h' \<in> set (hours tt)" "fits h'" for h'
      proof -
        from that mem have "h' \<in> set ?L" "?ok h'" by blast+
        from find_sorted_least [OF hours_on_day_sorted [of tt ?w] f this] show ?thesis .
      qed
      from f have "find ?ok (filter (\<lambda>h'. hour_of_day h' = hour_of_day h) ?L) = Some h"
        by (rule find_filter_keeps) simp
      then have "find ?ok (filter (\<lambda>h'. day_of_week h' = ?w \<and> hour_of_day h' = hour_of_day h)
                             (hours tt)) = Some h"
        by (simp only: hours_on_day_same_ordinal)
      then have "find (\<lambda>h'. day_of_week h' = ?w \<and> ?ok h')
                   (filter (\<lambda>h'. hour_of_day h' = hour_of_day h) (hours tt)) = Some h"
        by (simp only: find_filter_conj)
      then have "find fits (filter (\<lambda>h'. hour_of_day h' = hour_of_day h) (hours tt)) = Some h"
        by (simp add: fits_def)
      with in_tt least show ?thesis by blast
    qed
    have only: "?now = Inr (Some h)"
      if "h \<in> set (hours tt)" "fits h"
         "\<forall>h' \<in> set (hours tt). fits h' \<and> h' \<noteq> h \<longrightarrow> hour_of_day h < hour_of_day h'" for h
    proof -
      from that(1,2) some obtain r where r: "?now = Inr (Some r)" by blast
      from found [OF r] have r_in: "r \<in> set (hours tt)" "fits r"
        and r_least: "hour_of_day r \<le> hour_of_day h"
        using that(1,2) by blast+
      have "r = h"
      proof (rule ccontr)
        assume "r \<noteq> h"
        with that(3) r_in have "hour_of_day h < hour_of_day r" by blast
        with r_least show False by simp
      qed
      with r show ?thesis by simp
    qed
    have at_end: "\<exists>h'. ?now = Inr (Some h') \<and> fits h' \<and> hour_of_day h' \<le> hour_of_day h"
      if "h \<in> set (hours tt)" "day_of_week h = ?w" "time_start h \<le> time_end h"
         "time_of x = time_end h" for h
    proof -
      from that(2-4) have fh: "fits h" by (simp add: fits_def)
      with that(1) some obtain r where r: "?now = Inr (Some r)" by blast
      from found [OF r] that(1) fh have "fits r" "hour_of_day r \<le> hour_of_day h" by blast+
      with r show ?thesis by blast
    qed
    from now none some found only at_end show ?thesis by blast
  qed
  from raises inactive body show ?thesis by blast
qed

theorem hour_now_first_containing_slot_witness:
  "eck_overlap (timetables group1) = Inr () \<and>
   time_of (monday, hm 9 15) = time_end hour1 \<and>
   hour_now group1 vd_default (PyDatetime (monday, hm 9 15)) = Inr (Some hour1)"
proof -
  let ?x = "(monday, hm 9 15)"
  let ?fits = "\<lambda>hour. day_of_week hour = weekday (date_of ?x) \<and>
                      time_start hour \<le> time_of ?x \<and> time_of ?x \<le> time_end hour"
  have ok: "eck_overlap (timetables group1) = Inr ()"
    by code_simp
  have split: "timetables group1 = [] @ tt_year # []"
    by (simp add: group1_def)
  have active: "date_start tt_year \<le> date_of ?x \<and> date_of ?x \<le> date_end tt_year"
    by code_simp
  have first: "\<forall>p \<in> set ([] :: Timetable list).
      \<not> (date_start p \<le> date_of ?x \<and> date_of ?x \<le> date_end p)"
    by simp
  have member: "hour1 \<in> set (hours tt_year)"
    by (simp add: tt_year_def)
  have fits1: "?fits hour1"
    by code_simp
  have later: "hour_of_day hour1 < hour_of_day hour2"
    by code_simp
  have others: "\<forall>h' \<in> set (hours tt_year). ?fits h' \<and> h' \<noteq> hour1 \<longrightarrow>
      hour_of_day hour1 < hour_of_day h'"
    using later by (simp add: tt_year_def)
  have at_end: "time_of ?x = time_end hour1"
    by code_simp
  from hour_now_first_containing_slot [of group1 vd_default ?x]
  have "\<forall>pre tt post.
      eck_overlap (timetables group1) = Inr () \<and> timetables group1 = pre @ tt # post \<and>
      (date_start tt \<le> date_of ?x \<and> date_of ?x \<le> date_end tt) \<and>
      (\<forall>p \<in> set pre. \<not> (date_start p \<le> date_of ?x \<and> date_of ?x \<le> date_end p)) \<longrightarrow>
      (\<forall>h \<in> set (hours tt).
         ?fits h \<and> (\<forall>h' \<in> set (hours tt). ?fits h' \<and> h' \<noteq> h \<longrightarrow> hour_of_day h < hour_of_day h')
         \<longrightarrow> hour_now group1 vd_default (PyDatetime ?x) = Inr (Some hour1) \<or> h \<noteq> hour1)"
    by blast
  with ok split active first have "\<forall>h \<in> set (hours tt_year).
      ?fits h \<and> (\<forall>h' \<in> set (hours tt_year). ?fits h' \<and> h' \<noteq> h \<longrightarrow> hour_of_day h < hour_of_day h')
      \<longrightarrow> hour_now group1 vd_default (PyDatetime ?x) = Inr (Some hour1) \<or> h \<noteq> hour1"
    by blast
  with member fits1 others
  have "hour_now group1 vd_default (PyDatetime ?x) = Inr (Some hour1)"
    by blast
  with ok at_end show ?thesis by simp
qed

section \<open>Lateness and absence\<close>

text \<open>
  The limit that \<open>is_absent\<close> compares with lies \<open>max_abs\<close> days after the start of the
  current hour, on a later date than the instant: whenever \<open>is_absent\<close> returns, it
  returns \<open>False\<close>.
\<close>

lemma is_absent_never_true:
  assumes "hour_now g vd (PyDatetime x) = Inr (Some h)" and "valid_time (time_start h)"
  shows "is_absent g vd (PyDatetime x) = Inr False \<or>
         is_absent g vd (PyDatetime x) = Inl OverflowError"
proof -
  obtain d t where x: "x = (d, t)" by (cases x)
  have "30 * us_per_day \<le> time_start h + 30 * us_per_day"
    using assms(2) by (simp add: valid_time_def)
  then have "(30 * us_per_day) div us_per_day \<le> (time_start h + 30 * us_per_day) div us_per_day"
    by (rule zdiv_mono1) (simp add: us_per_day_def)
  then have "30 \<le> (time_start h + 30 * us_per_day) div us_per_day"
    by (simp add: us_per_day_def)
  then have "d < d + (time_start h + td_days max_abs) div us_per_day"
    by (simp add: td_days_def max_abs_def)
  then show ?thesis
    using assms(1)
    by (simp add: is_absent_def truthy_def conv_any_dt_def py_dt_def x dt_add_def Let_def
        combine_def date_of_def less_prod_def)
qed

text \<open>
  C1 at a failing input. On Monday 2022-01-17 at 09:05 the current hour of \<open>group1\<close> is
  the hour from 08:30 to 09:15; its start plus \<open>max_abs\<close> minutes is 09:00, which the
  instant is strictly after, and \<open>is_absent\<close> returns \<open>False\<close>.
\<close>

theorem is_absent_35_minutes_after_start:
  "hour_now group1 vd (PyDatetime (monday, hm 9 5)) = Inr (Some hour1) \<and>
   dt_add (combine monday (time_start hour1)) (td_minutes max_abs) = Inr (monday, hm 9 0) \<and>
   (monday, hm 9 0) < (monday, hm 9 5) \<and>
   is_absent group1 vd (PyDatetime (monday, hm 9 5)) = Inr False"
  by code_simp

text \<open>What \<open>mins_late\<close> returns: the threshold \<open>max_late\<close> plays no part in it.\<close>

lemma mins_late_value:
  "hour_now g vd (PyDatetime x) = Inr (Some h) \<Longrightarrow>
   mins_late g vd (PyDatetime x) =
     Inr (Some (if time_start h < time_of x then (time_of x - time_start h) div 60000000 else 0))"
  by (cases x)
     (simp add: mins_late_def truthy_def conv_any_dt_def py_dt_def Let_def combine_def
        date_of_def time_of_def dt_sub_def less_prod_def)

lemma mins_late_no_hour:
  "hour_now g vd (PyDatetime x) = Inr None \<Longrightarrow> mins_late g vd (PyDatetime x) = Inr None"
  by (simp add: mins_late_def truthy_def conv_any_dt_def py_dt_def)

text \<open>
  C7 at a failing input. On Monday 2022-01-17 at 08:33, three minutes into the hour that
  starts at 08:30, the group is not late (\<open>max_late\<close> is 5) and \<open>mins_late\<close> returns 3.
\<close>

theorem mins_late_within_late_threshold:
  "hour_now group1 vd (PyDatetime (monday, hm 8 33)) = Inr (Some hour1) \<and>
   is_late group1 vd (PyDatetime (monday, hm 8 33)) = Inr False \<and>
   mins_late group1 vd (PyDatetime (monday, hm 8 33)) = Inr (Some 3)"
  by code_simp

section \<open>The end of the schedule\<close>

lemma py_get_last: "xs \<noteq> [] \<Longrightarrow> py_get xs (- 1) = Inr (last xs)"
  by (cases xs rule: rev_cases) (simp_all add: py_get_def nth_append)

lemma is_off_with_timetables:
  assumes "timetables g \<noteq> []"
  shows "is_off g vd (PyDatetime x) =
     Inr (let last_tt = last (sort_key date_end (timetables g));
              hs = sort_key (\<lambda>hour. (day_of_week hour, combine (date_of x) (time_end hour)))
                     (hours last_tt)
          in hs \<noteq> [] \<and> combine (date_end last_tt) (time_end (last hs)) < x)"
proof -
  from assms have "sort_key date_end (timetables g) \<noteq> []"
    by (metis length_sort length_0_conv)
  then show ?thesis
    by (simp add: is_off_def conv_any_dt_def py_get_last Let_def)
qed

lemma is_off_without_hours:
  assumes "timetables g \<noteq> []" and "hours (last (sort_key date_end (timetables g))) = []"
  shows "is_off g vd (PyDatetime x) = Inr False"
  using assms by (simp add: is_off_with_timetables)

text \<open>
  C6 at a failing input. For a group without timetables \<open>is_off\<close> raises IndexError: the
  subscript \<open>[-1]\<close> of the empty sorted list is evaluated before the test of \<open>last_tt\<close>.
\<close>

theorem is_off_without_timetables:
  "is_off \<lparr>timetables = []\<rparr> vd (PyDatetime x) = Inl IndexError"
  by (simp add: is_off_def conv_any_dt_def py_get_def)

section \<open>The previous hour\<close>

lemma hours_prev_day_PyDatetime: "hours_prev_day g vd (PyDatetime x) = Inl TypeError"
  by (simp add: hours_prev_day_def parse_dt_def truthy_def)

lemma hour_prev_never_returns: "\<exists>e. hour_prev g vd (PyDatetime x) = Inl e"
  by (simp add: hour_prev_def hours_prev_day_PyDatetime split: sum.splits)

text \<open>
  C8 at a failing input. On Monday 2022-01-17 at 09:30 the current hour of \<open>group1\<close> is
  the second hour of the day, and \<open>hour_prev\<close> raises TypeError instead of returning the
  first one: \<open>hours_prev_day\<close> passes the datetime to \<open>strptime\<close>.
\<close>

theorem hour_prev_in_second_hour_raises:
  "hours_on_day tt_year (weekday monday) = [hour1, hour2] \<and>
   hour_now group1 vd (PyDatetime (monday, hm 9 30)) = Inr (Some hour2) \<and>
   hour_prev group1 vd (PyDatetime (monday, hm 9 30)) = Inl TypeError"
  by code_simp

section \<open>The derived fields of the clock\<close>

lemma update_clock_inv: "clock_inv (update c)"
  by (simp add: clock_inv_def update_def Let_def combine_def date_of_def time_of_def)

lemma set_date_clock_inv: "set_date c v = Inr c' \<Longrightarrow> clock_inv c'"
  by (auto simp: set_date_def update_clock_inv split: sum.splits option.splits if_splits)

lemma set_time_clock_inv: "set_time c v = Inr c' \<Longrightarrow> clock_inv c'"
  by (auto simp: set_time_def update_clock_inv split: sum.splits option.splits if_splits)

lemma reset_clock_inv: "reset c = Inr c' \<Longrightarrow> clock_inv c'"
  by (auto simp: reset_def update_clock_inv split: sum.splits)

lemma set_date_now_clock_inv: "set_date_now c now = Inr c' \<Longrightarrow> clock_inv c'"
  by (auto simp: set_date_now_def update_clock_inv split: sum.splits)

lemma set_time_now_clock_inv: "set_time_now c now = Inr c' \<Longrightarrow> clock_inv c'"
  by (auto simp: set_time_now_def update_clock_inv split: sum.splits)

lemma set_dt_now_clock_inv: "set_dt_now c now = Inr c' \<Longrightarrow> clock_inv c'"
  by (auto simp: set_dt_now_def update_clock_inv split: sum.splits)

lemma reset_default: "reset c = Inr (update (c\<lparr>date := 738175, time := hm 15 30\<rparr>))"
proof -
  have "parse_date (PyStr d_str) = Inr 738175" by code_simp
  moreover have "parse_time (PyStr t_str) = Inr (hm 15 30)" by code_simp
  ultimately show ?thesis by (simp add: reset_def)
qed

text \<open>
  C3 at a failing input. \<open>set_dt\<close> assigns the date and the time and does not call
  \<open>update\<close>: starting from the default clock, which satisfies the invariant, setting
  2022-01-21 09:00 leaves \<open>datetime\<close> at 2022-01-20 15:30.
\<close>

theorem set_dt_leaves_datetime_stale:
  "clock_inv vd_default \<and>
   set_dt vd_default (PyDatetime (738176, hm 9 0))
     = Inr (vd_default\<lparr>date := 738176, time := hm 9 0\<rparr>) \<and>
   datetime (vd_default\<lparr>date := 738176, time := hm 9 0\<rparr>) = (738175, hm 15 30) \<and>
   date_str (vd_default\<lparr>date := 738176, time := hm 9 0\<rparr>) = ''2022/01/20'' \<and>
   \<not> clock_inv (vd_default\<lparr>date := 738176, time := hm 9 0\<rparr>)"
  by code_simp

section \<open>Form input\<close>

lemma parse_date_None: "parse_date PyNone = Inr 738175"
  by code_simp

lemma parse_time_None: "parse_time PyNone = Inr (hm 15 30)"
  by code_simp

lemma set_date_None: "set_date c PyNone = Inr (update (c\<lparr>date := 738175\<rparr>))"
proof -
  have "parse_date (PyStr d_str) = Inr 738175" by code_simp
  then show ?thesis by (simp add: set_date_def truthy_def returning_def)
qed

lemma set_time_None: "set_time c PyNone = Inr (update (c\<lparr>time := hm 15 30\<rparr>))"
proof -
  have "parse_time (PyStr t_str) = Inr (hm 15 30)" by code_simp
  then show ?thesis by (simp add: set_time_def truthy_def returning_def)
qed

text \<open>Missing, empty and unmatched fields all set the configured default.\<close>

lemma process_form_date_default:
  assumes "f = None \<or> f = Some [] \<or> (\<exists>s. f = Some s \<and> rx_date s = PyNone)"
  shows "process_form c f None = Inr (update (update (c\<lparr>date := 738175\<rparr>)\<lparr>time := hm 15 30\<rparr>))"
proof -
  have "set_date c (PyDate 738175) = Inr (update (c\<lparr>date := 738175\<rparr>))"
    by (simp add: set_date_def truthy_def conv_any_date_def)
  with assms show ?thesis
    by (auto simp: process_form_def form_field_def truthy_def parse_date_None set_date_None
        set_time_None)
qed

lemma process_form_time_default:
  assumes "f = None \<or> f = Some [] \<or> (\<exists>s. f = Some s \<and> rx_time s = PyNone)"
  shows "process_form c None f = Inr (update (update (c\<lparr>date := 738175\<rparr>)\<lparr>time := hm 15 30\<rparr>))"
proof -
  have "set_time c' (PyTime (hm 15 30)) = Inr (update (c'\<lparr>time := hm 15 30\<rparr>))" for c'
    by (simp add: set_time_def truthy_def conv_any_time_def)
  with assms show ?thesis
    by (auto simp: process_form_def form_field_def truthy_def parse_time_None set_date_None
        set_time_None)
qed

text \<open>
  C4 at a failing input. The field \<open>22/02/30\<close> passes the date pattern, \<open>rx_date\<close> turns it
  into \<open>2022/02/30\<close>, and \<open>strptime\<close> raises ValueError for the thirtieth of February;
  nothing catches it, so \<open>process_form\<close> raises to its caller.
\<close>

theorem process_form_date_not_in_calendar_raises:
  "rx_date ''22/02/30'' = PyStr ''2022/02/30'' \<and>
   parse_date (PyStr ''2022/02/30'') = Inl ValueError \<and>
   process_form vd_default (Some ''22/02/30'') None = Inl ValueError"
  by code_simp

section \<open>Status derivation\<close>

text \<open>
  The loop over \<open>reversed(records)\<close> assigns every record that passes the cutoff and has
  no \<open>break\<close>, so it ends with the first such record in the order of the query.
\<close>

lemma select_record_first:
  "select_record vd x rs = find (\<lambda>r. combine (date_of x) (time_rec r) \<le> datetime vd) rs"
  by (induction rs) (simp_all add: select_record_def)

text \<open>
  C2 at a failing input. The student checked in at 08:31 (on time) and at 08:50 (late)
  in the hour from 08:30 to 09:15; the rows come back in that order. At 09:00, with the
  virtual clock at 09:00 too, both records lie before the instant and the later one is
  the check-in of 08:50, yet the status is \<open>present_known\<close>, that of the record of 08:31.
\<close>

theorem update_status_takes_earliest_record:
  "time_rec rec_0831 < time_rec rec_0850 \<and>
   combine monday (time_rec rec_0850) \<le> (monday, hm 9 0) \<and>
   late rec_0850 \<and> \<not> late rec_0831 \<and>
   update_status student1 (vd_at (monday, hm 9 0)) [rec_0831, rec_0850]
       (PyDatetime (monday, hm 9 0))
     = Inr (student1\<lparr>status := Some ''present_known''\<rparr>)"
  by code_simp

text \<open>
  C10. With the explicit instant, the student and the table of records fixed, the status
  changes with the virtual clock. First pair (the guard \<open>self.group.hour_now()\<close>): for the
  instant Monday 08:33 and no records, the status is \<open>present_unknown\<close> when the clock
  stands at that instant and \<open>not_expected\<close> when it stands at Saturday 08:33. Second pair
  (the cutoff \<open>r_dt <= vd.datetime\<close>): for the instant Monday 08:40 and one record of
  08:31, the status is \<open>present_known\<close> when the clock stands at 08:40 and \<open>late_unknown\<close>
  when it stands at 08:30.
\<close>

theorem update_status_depends_on_virtual_clock:
  "update_status student1 (vd_at (monday, hm 8 33)) [] (PyDatetime (monday, hm 8 33))
     = Inr (student1\<lparr>status := Some ''present_unknown''\<rparr>) \<and>
   update_status student1 (vd_at (monday + 5, hm 8 33)) [] (PyDatetime (monday, hm 8 33))
     = Inr (student1\<lparr>status := Some ''not_expected''\<rparr>) \<and>
   update_status student1 (vd_at (monday, hm 8 40)) [rec_0831] (PyDatetime (monday, hm 8 40))
     = Inr (student1\<lparr>status := Some ''present_known''\<rparr>) \<and>
   update_status student1 (vd_at (monday, hm 8 30)) [rec_0831] (PyDatetime (monday, hm 8 40))
     = Inr (student1\<lparr>status := Some ''late_unknown''\<rparr>)"
  by code_simp

end
